theory Spec2Isabelle
  imports Complex_Main
begin

section \<open>Values, exceptions and the notebook state\<close>

text \<open>
  The program is a notebook in percent format: a sequence of cells sharing one global
  namespace. A cell is a sequence of statements over that namespace; a statement that
  reads an unbound name raises \<open>NameError\<close>, and an exception ends the cell.

  Values are the ones the modelled statements inspect. A \<open>Path\<close> is kept as the string
  it was built from, as written (no normalisation). Modules and functions bound by the
  import cell are taken as bound. Objects whose inside never matters here (the model, the optimizers, the
  data streams, the writer) are opaque handles.
\<close>

datatype pyval = VInt int | VBool bool | VStr string | VPaths "string list" | VObj string

datatype pyexc =
    NameError string
  | AttributeError string
  | AssertionError string
  | SyntaxError nat
  | OSError string
  | ValueError string
  | TypeError string
  | IndexError nat
  | KeyboardInterrupt
  | SystemExit

type_synonym namespace = "string \<rightharpoonup> pyval"

text \<open>What \<open>print\<close> wrote: the format string and the integers substituted into it.\<close>

type_synonym printed = "string \<times> int list"

text \<open>
  \<open>nb_globals\<close> is the module namespace, \<open>nb_opt\<close> the attribute dictionary of the
  options object that the global \<open>opt\<close> is bound to, \<open>nb_stdout\<close> the lines printed,
  \<open>nb_shell\<close> the argument vectors of the shell commands issued by \<open>!\<close> lines.
\<close>

record notebook =
  nb_globals :: namespace
  nb_opt :: namespace
  nb_stdout :: "printed list"
  nb_shell :: "string list list"

definition load_name :: "namespace \<Rightarrow> string \<Rightarrow> pyexc + pyval" where
  "load_name g n = (case g n of None \<Rightarrow> Inl (NameError n) | Some v \<Rightarrow> Inr v)"

definition getattr :: "namespace \<Rightarrow> string \<Rightarrow> pyexc + pyval" where
  "getattr d a = (case d a of None \<Rightarrow> Inl (AttributeError a) | Some v \<Rightarrow> Inr v)"

text \<open>An attribute used as a path component: \<open>os.path.join\<close> rejects what is not path-like.\<close>

definition path_attr :: "namespace \<Rightarrow> string \<Rightarrow> pyexc + string" where
  "path_attr d a =
     (case getattr d a of
        Inl e \<Rightarrow> Inl e
      | Inr (VStr s) \<Rightarrow> Inr s
      | Inr _ \<Rightarrow> Inl (TypeError a))"

fun truthy :: "pyval \<Rightarrow> bool" where
  "truthy (VBool b) = b"
| "truthy (VInt i) = (i \<noteq> 0)"
| "truthy (VStr s) = (s \<noteq> [])"
| "truthy (VPaths ps) = (ps \<noteq> [])"
| "truthy (VObj h) = True"

text \<open>
  The arguments of a call are evaluated left to right; the first unbound name raises and
  the call is not made.
\<close>

fun load_names :: "namespace \<Rightarrow> string list \<Rightarrow> pyexc + pyval list" where
  "load_names g [] = Inr []"
| "load_names g (n # ns) =
     (case g n of
        None \<Rightarrow> Inl (NameError n)
      | Some v \<Rightarrow> (case load_names g ns of Inl e \<Rightarrow> Inl e | Inr vs \<Rightarrow> Inr (v # vs)))"

section \<open>The training cell: resume block and the call of \<open>train_model\<close>\<close>

text \<open>\<open>os.path.join\<close> on POSIX: an absolute component discards what came before it.\<close>

definition os_path_join2 :: "string \<Rightarrow> string \<Rightarrow> string" where
  "os_path_join2 a b =
     (if b \<noteq> [] \<and> hd b = CHR ''/'' then b
      else if a = [] \<or> last a = CHR ''/'' then a @ b
      else a @ ''/'' @ b)"

definition os_path_join :: "string \<Rightarrow> string list \<Rightarrow> string" where
  "os_path_join a ps = foldl os_path_join2 a ps"

text \<open>
  The body of the \<open>try\<close>:
  \<^verbatim>\<open>start_epoch, epoch_iter = np.loadtxt(iter_path, delimiter=",", dtype=int)\<close>
  The file system is a parameter: \<open>loadtxt p\<close> is what reading \<open>p\<close> gives, an exception
  or the integer vector parsed from the file. Unpacking a vector that does not hold
  exactly two entries raises as well.
\<close>

definition read_iter :: "(string \<Rightarrow> pyexc + int list) \<Rightarrow> string \<Rightarrow> pyexc + int \<times> int" where
  "read_iter loadtxt p =
     (case loadtxt p of
        Inl e \<Rightarrow> Inl e
      | Inr [a, b] \<Rightarrow> Inr (a, b)
      | Inr _ \<Rightarrow> Inl (ValueError ''unpack''))"

text \<open>
  \<^verbatim>\<open>
  if opt.continue_train:
      iter_path = os.path.join(opt.checkpoints_dir, opt.name, "iter.txt")
      try:
          start_epoch, epoch_iter = np.loadtxt(iter_path, delimiter=",", dtype=int)
      except:
          start_epoch, epoch_iter = 1, 0
      print("Resuming from epoch %d at iteration %d" % (start_epoch, epoch_iter))
  else:
      start_epoch, epoch_iter = 1, 0
  \<close>
  The handler is a bare \<open>except\<close>: every exception of the body takes the same branch.
\<close>

definition resume_block :: "(string \<Rightarrow> pyexc + int list) \<Rightarrow> notebook \<Rightarrow> pyexc + notebook" where
  "resume_block loadtxt st =
     (case getattr (nb_opt st) ''continue_train'' of
        Inl e \<Rightarrow> Inl e
      | Inr c \<Rightarrow>
          if truthy c then
            (case path_attr (nb_opt st) ''checkpoints_dir'' of
               Inl e \<Rightarrow> Inl e
             | Inr d \<Rightarrow>
                 (case path_attr (nb_opt st) ''name'' of
                    Inl e \<Rightarrow> Inl e
                  | Inr n \<Rightarrow>
                      let iter_path = os_path_join d [n, ''iter.txt''];
                          (start_epoch, epoch_iter) =
                            (case read_iter loadtxt iter_path of
                               Inl e \<Rightarrow> (1, 0)
                             | Inr p \<Rightarrow> p)
                      in Inr (st\<lparr>nb_globals := (nb_globals st)
                                   (''iter_path'' \<mapsto> VStr iter_path,
                                    ''start_epoch'' \<mapsto> VInt start_epoch,
                                    ''epoch_iter'' \<mapsto> VInt epoch_iter),
                                 nb_stdout := nb_stdout st @
                                   [(''Resuming from epoch %d at iteration %d'',
                                     [start_epoch, epoch_iter])]\<rparr>)))
          else
            Inr (st\<lparr>nb_globals := (nb_globals st)
                       (''start_epoch'' \<mapsto> VInt 1, ''epoch_iter'' \<mapsto> VInt 0)\<rparr>))"

definition train_model_args :: "string list" where
  "train_model_args =
     [''opt'', ''phase2nuclei_model'', ''visualizer'', ''dataset_train'', ''dataset_val'',
      ''optimizer_G'', ''optimizer_D'', ''start_epoch'', ''epoch_iter'', ''iter_path'',
      ''writer'']"

text \<open>
  Lines 187 to 210. \<open>continue_train\<close> is the value line 187 assigns to
  \<open>opt.continue_train\<close>; the notebook as written assigns \<open>False\<close>. \<open>train_model\<close> is
  imported from another package: the cell's result is the call it makes, the arguments
  in order with their parameter names, or the exception raised before the call.
\<close>

definition train_cell ::
  "bool \<Rightarrow> (string \<Rightarrow> pyexc + int list) \<Rightarrow> notebook \<Rightarrow> pyexc + notebook \<times> (string \<times> pyval) list"
where
  "train_cell continue_train loadtxt st =
     (case load_name (nb_globals st) ''opt'' of
        Inl e \<Rightarrow> Inl e
      | Inr _ \<Rightarrow>
          (case resume_block loadtxt
                  (st\<lparr>nb_opt := (nb_opt st)(''continue_train'' \<mapsto> VBool continue_train)\<rparr>) of
             Inl e \<Rightarrow> Inl e
           | Inr st' \<Rightarrow>
               (case load_names (nb_globals st') train_model_args of
                  Inl e \<Rightarrow> Inl e
                | Inr vs \<Rightarrow> Inr (st', zip train_model_args vs))))"

definition notebook_continue_train :: bool where
  "notebook_continue_train = False"

text \<open>
  The namespace when the training cell starts, after the cells above it ran from a fresh
  kernel: the names lines 101 to 183 bind, with sample values (\<open>~\<close> expanded to
  \<open>/home/user\<close>).
\<close>

definition fresh_globals :: namespace where
  "fresh_globals =
     [''opt'' \<mapsto> VObj ''TrainOptions'',
      ''output_image_folder'' \<mapsto> VStr ''/home/user/data/04_image_translation/tiff_files'',
      ''writer'' \<mapsto> VObj ''SummaryWriter'',
      ''dataset_opt'' \<mapsto> VObj ''dict'',
      ''train_dataloader'' \<mapsto> VObj ''CreateDataLoader'',
      ''dataset_train'' \<mapsto> VObj ''train stream'',
      ''val_dataloader'' \<mapsto> VObj ''CreateDataLoader'',
      ''dataset_val'' \<mapsto> VObj ''val stream'',
      ''model_opt'' \<mapsto> VObj ''dict'',
      ''phase2nuclei_model'' \<mapsto> VObj ''model'',
      ''optimizer_G'' \<mapsto> VObj ''optimizer_G'',
      ''optimizer_D'' \<mapsto> VObj ''optimizer_D'',
      ''visualizer'' \<mapsto> VObj ''Visualizer'']"

definition fresh_opt :: namespace where
  "fresh_opt =
     [''name'' \<mapsto> VStr ''dlmbl_vsnuclei'',
      ''checkpoints_dir'' \<mapsto> VStr ''/home/user/data/04_image_translation/dlmbl_vsnuclei/logs'',
      ''phase'' \<mapsto> VStr ''val'']"

definition fresh_notebook :: notebook where
  "fresh_notebook = \<lparr>nb_globals = fresh_globals, nb_opt = fresh_opt, nb_stdout = [], nb_shell = []\<rparr>"

definition missing_file :: "string \<Rightarrow> pyexc + int list" where
  "missing_file p = Inl (OSError p)"

text \<open>The names the call of \<open>train_model\<close> reads that the cells above bind.\<close>

definition train_prior_names :: "string list" where
  "train_prior_names =
     [''opt'', ''phase2nuclei_model'', ''visualizer'', ''dataset_train'', ''dataset_val'',
      ''optimizer_G'', ''optimizer_D'', ''writer'']"

definition names_bound :: "namespace \<Rightarrow> string list \<Rightarrow> bool" where
  "names_bound g ns = list_all (\<lambda>n. g n \<noteq> None) ns"

definition interrupted :: "string \<Rightarrow> pyexc + int list" where
  "interrupted p = Inl KeyboardInterrupt"

definition resuming_notebook :: notebook where
  "resuming_notebook =
     fresh_notebook\<lparr>nb_opt := (nb_opt fresh_notebook)(''continue_train'' \<mapsto> VBool True)\<rparr>"

section \<open>The evaluation cell: options of the inference run\<close>

text \<open>
  \<open>opt.__dict__.update(d)\<close> writes the entries of \<open>d\<close> into the attribute dictionary
  under the keys of \<open>d\<close> as they are spelled, in order, later entries winning.
\<close>

definition dict_update :: "namespace \<Rightarrow> (string \<times> pyval) list \<Rightarrow> namespace" where
  "dict_update d kvs = foldl (\<lambda>m (k, v). m(k \<mapsto> v)) d kvs"

text \<open>Lines 310 to 318.\<close>

definition dataset_opt :: "string \<Rightarrow> string \<Rightarrow> (string \<times> pyval) list" where
  "dataset_opt output_image_folder translation_task =
     [(''--dataroot'', VStr output_image_folder),
      (''--data_type'', VStr ''16''),
      (''--loadSize'', VStr ''512''),
      (''--input_nc'', VStr ''1''),
      (''--output_nc'', VStr ''1''),
      (''--resize_or_crop'', VStr ''none''),
      (''--target'', VStr translation_task)]"

text \<open>Lines 324 to 343.\<close>

definition model_opt :: "(string \<times> pyval) list" where
  "model_opt =
     [(''--ngf'', VStr ''64''),
      (''--n_downsample_global'', VStr ''4''),
      (''--n_blocks_global'', VStr ''9''),
      (''--n_blocks_local'', VStr ''3''),
      (''--n_local_enhancers'', VStr ''1''),
      (''--num_D'', VStr ''3''),
      (''--n_layers_D'', VStr ''3''),
      (''--ndf'', VStr ''32''),
      (''--gpu_ids'', VStr ''0''),
      (''--norm'', VStr ''instance''),
      (''--use_dropout'', VStr []),
      (''--batchSize'', VStr ''8''),
      (''--no_vgg_loss'', VStr []),
      (''--no_ganFeat_loss'', VStr []),
      (''--no_lsgan'', VStr [])]"

text \<open>Lines 349 to 355; \<open>name\<close> is \<open>opt.name\<close> as line 350 has just set it.\<close>

definition inference_opt :: "string \<Rightarrow> (string \<times> pyval) list" where
  "inference_opt name =
     [(''--how_many'', VStr ''144''),
      (''--checkpoints_dir'',
         VStr (''~/data/04_image_translation/pretrained_GAN/'' @ name @ ''/'')),
      (''--results_dir'',
         VStr (''~/data/04_image_translation/pretrained_GAN/'' @ name @ ''/results/'')),
      (''--which_epoch'', VStr ''latest''),
      (''--phase'', VStr ''test'')]"

text \<open>
  Lines 309 to 361. \<open>parsed\<close> is the attribute dictionary \<open>TestOptions().parse(save=False)\<close>
  returns (the options parser is imported from another package).
\<close>

definition inference_options :: "namespace \<Rightarrow> string \<Rightarrow> string \<Rightarrow> namespace" where
  "inference_options parsed output_image_folder translation_task =
     (let opt = dict_update parsed (dataset_opt output_image_folder translation_task);
          opt = dict_update opt model_opt;
          name = ''dlmbl_vs'' @ translation_task;
          opt = opt(''name'' \<mapsto> VStr name);
          opt = dict_update opt (inference_opt name);
          opt = opt(''nThreads'' \<mapsto> VInt 1);
          opt = opt(''batchSize'' \<mapsto> VInt 1);
          opt = opt(''serial_batches'' \<mapsto> VBool True);
          opt = opt(''no_flip'' \<mapsto> VBool True)
      in opt)"

text \<open>Line 248.\<close>

definition translation_task :: string where
  "translation_task = ''nuclei''"

section \<open>Images, Examples and the external model\<close>

text \<open>A two-dimensional image: its size and the value at each row and column.\<close>

record image =
  height :: nat
  width :: nat
  pixel :: "nat \<Rightarrow> nat \<Rightarrow> real"

record example =
  ex_id :: string
  ex_source :: image
  ex_target :: image

text \<open>
  The external model service as a capability: a network maps parameters, the switch of
  stochastic regularization, the index of the random draw and a source image to a
  prediction. A model is a network with its parameters and the switch.
\<close>

type_synonym 'p net = "'p \<Rightarrow> bool \<Rightarrow> nat \<Rightarrow> image \<Rightarrow> image"

record 'p model =
  m_net :: "'p net"
  m_params :: 'p
  m_dropout :: bool

text \<open>
  Modelled from the spec: \<open>create_model\<close> (package \<open>GANs_MI2I.pix2pixHD.models\<close>) is not
  in src/. The external model service has a toggle for stochastic regularization at
  inference; line 600 sets \<open>opt.dropout_variation_inf = True\<close> (use dropout during
  inference) before line 601 creates the model, so the toggle is that option.
\<close>

definition create_model :: "'p net \<Rightarrow> 'p \<Rightarrow> namespace \<Rightarrow> 'p model" where
  "create_model network weights opt =
     \<lparr>m_net = network, m_params = weights,
      m_dropout = (case opt ''dropout_variation_inf'' of None \<Rightarrow> False | Some v \<Rightarrow> truthy v)\<rparr>"

section \<open>Inference Runner\<close>

text \<open>
  Modelled from the spec: \<open>inference\<close> (package \<open>GANs_MI2I.pix2pixHD.test_dlmbl\<close>, imported
  as \<open>inference_model\<close>) is not in src/. Section 4.4: for each Example of the evaluation
  stream, with stochastic regularization disabled, produce one output image and persist
  it under a path derived from the Example's identifier; no parameter update; every
  Example exactly once, in stream order. The result is the list of files written, in the
  order written, and the model after the run.
\<close>

definition inference_model ::
  "example list \<Rightarrow> string \<Rightarrow> 'p model \<Rightarrow> (string \<times> image) list \<times> 'p model"
where
  "inference_model dataset results_dir model =
     (map (\<lambda>(k, ex). (os_path_join results_dir [ex_id ex @ ''.tiff''],
                        m_net model (m_params model) False k (ex_source ex)))
          (enumerate 0 dataset),
      model)"

text \<open>
  Lines 309 to 373: the options, the results directory they name, the model created from
  them and the inference run. \<open>test_dataset\<close> is the stream the external loader delivers
  under these options.
\<close>

definition inference_cell ::
  "namespace \<Rightarrow> string \<Rightarrow> 'p net \<Rightarrow> 'p \<Rightarrow> example list
     \<Rightarrow> pyexc + namespace \<times> (string \<times> image) list \<times> 'p model"
where
  "inference_cell parsed output_image_folder network weights test_dataset =
     (let opt = inference_options parsed output_image_folder translation_task
      in case path_attr opt ''results_dir'' of
           Inl e \<Rightarrow> Inl e
         | Inr results_dir \<Rightarrow>
             Inr (opt, inference_model test_dataset results_dir (create_model network weights opt)))"

section \<open>Stochastic Sampler\<close>

definition mean :: "real list \<Rightarrow> real" where
  "mean xs = sum_list xs / real (length xs)"

definition variance :: "real list \<Rightarrow> real" where
  "variance xs = mean (map (\<lambda>x. (x - mean xs)\<^sup>2) xs)"

text \<open>
  The per-pixel variance across the sample axis. There is no map of no samples.
\<close>

definition uncertainty_map :: "image list \<Rightarrow> image option" where
  "uncertainty_map samples =
     (case samples of
        [] \<Rightarrow> None
      | s # _ \<Rightarrow>
          Some \<lparr>height = height s, width = width s,
                pixel = (\<lambda>r c. variance (map (\<lambda>x. pixel x r c) samples))\<rparr>)"

text \<open>Lines 598 to 600, on the options of the inference run.\<close>

definition sampler_options :: "namespace \<Rightarrow> pyexc + namespace" where
  "sampler_options opt =
     (case getattr opt ''name'' of
        Inl e \<Rightarrow> Inl e
      | Inr (VStr name) \<Rightarrow>
          Inr (opt(''variational_inf_runs'' \<mapsto> VInt 100,
                   ''variation_inf_path'' \<mapsto>
                     VStr (''~/data/04_image_translation/pretrained_GAN/'' @ name
                             @ ''/results/samples/''),
                   ''dropout_variation_inf'' \<mapsto> VBool True))
      | Inr _ \<Rightarrow> Inl (TypeError ''name''))"

record sampled =
  sm_id :: string
  sm_samples :: "image list"
  sm_uncertainty :: "image option"

text \<open>
  Modelled from the spec: \<open>sampling\<close> (package \<open>GANs_MI2I.pix2pixHD.test_dlmbl\<close>) is not in
  src/. Section 4.5: with the configured ensemble size N, produce N forward passes per
  Example, each with its own random draw, and reduce the N samples of an Example to the
  per-pixel variance across the sample axis, that Example's UncertaintyMap. The ensemble
  size is the option \<open>variational_inf_runs\<close> (line 598: number of samples per phase
  input).
\<close>

definition sampling :: "example list \<Rightarrow> namespace \<Rightarrow> 'p model \<Rightarrow> pyexc + sampled list" where
  "sampling dataset opt model =
     (case getattr opt ''variational_inf_runs'' of
        Inl e \<Rightarrow> Inl e
      | Inr (VInt runs) \<Rightarrow>
          Inr (map (\<lambda>(i, ex).
                      let samples =
                            map (\<lambda>k. m_net model (m_params model) (m_dropout model)
                                       (i * nat runs + k) (ex_source ex))
                                [0..<nat runs]
                      in \<lparr>sm_id = ex_id ex, sm_samples = samples,
                          sm_uncertainty = uncertainty_map samples\<rparr>)
                   (enumerate 0 dataset))
      | Inr _ \<Rightarrow> Inl (TypeError ''variational_inf_runs''))"

text \<open>Lines 593 to 603.\<close>

definition sampling_cell ::
  "namespace \<Rightarrow> 'p net \<Rightarrow> 'p \<Rightarrow> example list \<Rightarrow> pyexc + 'p model \<times> sampled list"
where
  "sampling_cell opt network weights test_dataset =
     (case sampler_options opt of
        Inl e \<Rightarrow> Inl e
      | Inr opt' \<Rightarrow>
          (let model = create_model network weights opt'
           in case sampling test_dataset opt' model of
                Inl e \<Rightarrow> Inl e
              | Inr out \<Rightarrow> Inr (model, out)))"

text \<open>Sample inputs: options the parser might return, a network, two Examples.\<close>

definition parsed_defaults :: namespace where
  "parsed_defaults =
     [''results_dir'' \<mapsto> VStr ''./results/'',
      ''how_many'' \<mapsto> VInt 50,
      ''batchSize'' \<mapsto> VInt 8,
      ''nThreads'' \<mapsto> VInt 2,
      ''serial_batches'' \<mapsto> VBool False,
      ''no_flip'' \<mapsto> VBool False]"

definition blank :: image where
  "blank = \<lparr>height = 512, width = 512, pixel = (\<lambda>r c. 0)\<rparr>"

definition noisy_net :: "unit net" where
  "noisy_net w dropout draw img =
     img\<lparr>pixel := (\<lambda>r c. pixel img r c + (if dropout then real draw else 0))\<rparr>"

definition two_examples :: "example list" where
  "two_examples =
     [\<lparr>ex_id = ''img_0'', ex_source = blank, ex_target = blank\<rparr>,
      \<lparr>ex_id = ''img_1'', ex_source = blank, ex_target = blank\<rparr>]"

definition output_image_folder :: string where
  "output_image_folder = ''/home/user/data/04_image_translation/tiff_files''"

section \<open>Gathering the results and loading the images\<close>

text \<open>
  \<open>sorted\<close> on a list of \<open>Path\<close>: paths compare by their components, components by their
  characters. Only the order of equal-length lists matters below.
\<close>

fun path_parts :: "string \<Rightarrow> string list" where
  "path_parts [] = [[]]"
| "path_parts (c # cs) =
     (if c = CHR ''/'' then [] # path_parts cs
      else (case path_parts cs of p # ps \<Rightarrow> (c # p) # ps | [] \<Rightarrow> [[c]]))"

definition path_key :: "string \<Rightarrow> nat list list" where
  "path_key p = map (map of_char) (filter (\<lambda>part. part \<noteq> []) (path_parts p))"

fun lex_le :: "('a \<Rightarrow> 'a \<Rightarrow> bool) \<Rightarrow> 'a list \<Rightarrow> 'a list \<Rightarrow> bool" where
  "lex_le le [] ys = True"
| "lex_le le (x # xs) [] = False"
| "lex_le le (x # xs) (y # ys) = (if x = y then lex_le le xs ys else le x y)"

definition path_le :: "string \<Rightarrow> string \<Rightarrow> bool" where
  "path_le p q = lex_le (lex_le (\<le>)) (path_key p) (path_key q)"

fun insert_path :: "string \<Rightarrow> string list \<Rightarrow> string list" where
  "insert_path p [] = [p]"
| "insert_path p (q # qs) = (if path_le p q then p # q # qs else q # insert_path p qs)"

definition sorted_paths :: "string list \<Rightarrow> string list" where
  "sorted_paths ps = foldr insert_path ps []"

text \<open>
  Lines 376 to 390. The three arguments are what the three \<open>glob\<close> calls find. A chained
  comparison \<open>a == b == c\<close> is \<open>a == b and b == c\<close>.
\<close>

definition gather_results ::
  "string list \<Rightarrow> string list \<Rightarrow> string list
     \<Rightarrow> pyexc + string list \<times> string list \<times> string list"
where
  "gather_results virtual_glob target_glob phase_glob =
     (let virtual_stain_paths = sorted_paths virtual_glob;
          target_stain_paths = sorted_paths target_glob;
          phase_paths = sorted_paths phase_glob
      in if length virtual_stain_paths = length target_stain_paths
            \<and> length target_stain_paths = length phase_paths
         then Inr (virtual_stain_paths, target_stain_paths, phase_paths)
         else Inl (AssertionError ''Number of images do not match.''))"

text \<open>
  Arrays are objects: a variable holds an address, the store maps addresses to arrays.
  A three-dimensional array is its shape and the value at each index.
\<close>

record ndarray =
  arr_shape :: "nat \<times> nat \<times> nat"
  arr_data :: "nat \<Rightarrow> nat \<Rightarrow> nat \<Rightarrow> real"

record store =
  st_heap :: "nat \<rightharpoonup> ndarray"
  st_next :: nat

definition alloc :: "ndarray \<Rightarrow> store \<Rightarrow> nat \<times> store" where
  "alloc a s = (st_next s, s\<lparr>st_heap := (st_heap s)(st_next s \<mapsto> a), st_next := Suc (st_next s)\<rparr>)"

definition np_zeros :: "nat \<times> nat \<times> nat \<Rightarrow> store \<Rightarrow> nat \<times> store" where
  "np_zeros shp s = alloc \<lparr>arr_shape = shp, arr_data = (\<lambda>k r c. 0)\<rparr> s"

definition np_copy :: "nat \<Rightarrow> store \<Rightarrow> (nat \<times> store) option" where
  "np_copy a s = (case st_heap s a of None \<Rightarrow> None | Some arr \<Rightarrow> Some (alloc arr s))"

text \<open>
  What \<open>imread\<close> returns: an array of any rank, its shape and the value at each index
  (a list as long as the shape).
\<close>

record nparray =
  np_shape :: "nat list"
  np_at :: "nat list \<Rightarrow> real"

text \<open>
  The value assigned to \<open>arr[index]\<close> is broadcast to the shape of that slice, which has
  two dimensions. A value of higher rank first loses dimensions of size 1 from the left,
  as long as its rank exceeds the slice's; what is left must not have more dimensions
  than the slice, and each dimension, aligned from the right, must equal the slice's or
  be 1.
\<close>

fun strip_ones :: "nat \<Rightarrow> nat list \<Rightarrow> nat list" where
  "strip_ones rank [] = []"
| "strip_ones rank (d # ds) =
     (if rank < length (d # ds) \<and> d = 1 then strip_ones rank ds else d # ds)"

definition broadcastable :: "nat list \<Rightarrow> nat \<times> nat \<Rightarrow> bool" where
  "broadcastable shp hw =
     (case strip_ones 2 shp of
        [] \<Rightarrow> True
      | [w'] \<Rightarrow> w' = snd hw \<or> w' = 1
      | [h', w'] \<Rightarrow> (h' = fst hw \<or> h' = 1) \<and> (w' = snd hw \<or> w' = 1)
      | _ \<Rightarrow> False)"

text \<open>The entry of the value that lands at row \<open>r\<close> and column \<open>c\<close> of the slice.\<close>

definition broadcast_value :: "nparray \<Rightarrow> nat \<Rightarrow> nat \<Rightarrow> real" where
  "broadcast_value img r c =
     (let core = strip_ones 2 (np_shape img);
          lead = replicate (length (np_shape img) - length core) 0
      in case core of
           [] \<Rightarrow> np_at img lead
         | [w'] \<Rightarrow> np_at img (lead @ [if w' = 1 then 0 else c])
         | [h', w'] \<Rightarrow>
             np_at img (lead @ [if h' = 1 then 0 else r, if w' = 1 then 0 else c])
         | _ \<Rightarrow> 0)"

text \<open>
  \<open>arr[index] = img\<close> for the array at address \<open>a\<close>. The written slice takes the
  broadcast image; the rest of the array, and every other array, is left as it was. An
  address outside the store belongs to no variable; that branch only makes the function
  total.
\<close>

definition setitem :: "nat \<Rightarrow> nat \<Rightarrow> nparray \<Rightarrow> store \<Rightarrow> pyexc + store" where
  "setitem a index img s =
     (case st_heap s a of
        None \<Rightarrow> Inl (NameError ''array'')
      | Some arr \<Rightarrow>
          (case arr_shape arr of
             (n, h, w) \<Rightarrow>
               if \<not> index < n then Inl (IndexError index)
               else if \<not> broadcastable (np_shape img) (h, w) then
                 Inl (ValueError ''could not broadcast input array'')
               else
                 Inr (s\<lparr>st_heap := (st_heap s)
                          (a \<mapsto> arr\<lparr>arr_data :=
                                      (\<lambda>k r c. if k = index \<and> r < h \<and> c < w
                                                then broadcast_value img r c
                                                else arr_data arr k r c)\<rparr>)\<rparr>)))"

text \<open>
  Lines 397 to 406: the loop over \<open>enumerate(zip(...))\<close>. \<open>imread p\<close> is what reading the
  file \<open>p\<close> gives: an exception, or the array read. The three addresses are those of \<open>virtual_stains\<close>,
  \<open>target_stains\<close> and \<open>phase_images\<close>.
\<close>

fun load_images ::
  "(string \<Rightarrow> pyexc + nparray) \<Rightarrow> nat \<times> nat \<times> nat \<Rightarrow> nat
     \<Rightarrow> (string \<times> string \<times> string) list \<Rightarrow> store \<Rightarrow> pyexc + store"
where
  "load_images imread refs index [] s = Inr s"
| "load_images imread refs index ((v_path, t_path, p_path) # rest) s =
     (case refs of
        (virtual_stains, target_stains, phase_images) \<Rightarrow>
     (case imread v_path of
        Inl e \<Rightarrow> Inl e
      | Inr virtual_stain \<Rightarrow>
     (case imread p_path of
        Inl e \<Rightarrow> Inl e
      | Inr phase_image \<Rightarrow>
     (case imread t_path of
        Inl e \<Rightarrow> Inl e
      | Inr target_stain \<Rightarrow>
     (case setitem phase_images index phase_image s of
        Inl e \<Rightarrow> Inl e
      | Inr s1 \<Rightarrow>
     (case setitem target_stains index target_stain s1 of
        Inl e \<Rightarrow> Inl e
      | Inr s2 \<Rightarrow>
     (case setitem virtual_stains index virtual_stain s2 of
        Inl e \<Rightarrow> Inl e
      | Inr s3 \<Rightarrow> load_images imread refs (Suc index) rest s3)))))))"

text \<open>Lines 393 to 395: \<open>np.zeros\<close> and the two \<open>copy\<close> calls.\<close>

definition alloc_arrays :: "nat \<Rightarrow> store \<Rightarrow> ((nat \<times> nat \<times> nat) \<times> store) option" where
  "alloc_arrays n s =
     (case np_zeros (n, 512, 512) s of
        (virtual_stains, s1) \<Rightarrow>
          (case np_copy virtual_stains s1 of
             None \<Rightarrow> None
           | Some (target_stains, s2) \<Rightarrow>
               (case np_copy virtual_stains s2 of
                  None \<Rightarrow> None
                | Some (phase_images, s3) \<Rightarrow>
                    Some ((virtual_stains, target_stains, phase_images), s3))))"

text \<open>Lines 376 to 406.\<close>

definition load_cell ::
  "(string \<Rightarrow> pyexc + nparray) \<Rightarrow> string list \<Rightarrow> string list \<Rightarrow> string list \<Rightarrow> store
     \<Rightarrow> pyexc + (nat \<times> nat \<times> nat) \<times> store"
where
  "load_cell imread virtual_glob target_glob phase_glob s =
     (case gather_results virtual_glob target_glob phase_glob of
        Inl e \<Rightarrow> Inl e
      | Inr (virtual_stain_paths, target_stain_paths, phase_paths) \<Rightarrow>
          (case alloc_arrays (length virtual_stain_paths) s of
             None \<Rightarrow> Inl (NameError ''virtual_stains'')
           | Some (refs, s') \<Rightarrow>
               (case load_images imread refs 0
                       (zip virtual_stain_paths (zip target_stain_paths phase_paths)) s' of
                  Inl e \<Rightarrow> Inl e
                | Inr s'' \<Rightarrow> Inr (refs, s''))))"

definition empty_store :: store where
  "empty_store = \<lparr>st_heap = Map.empty, st_next = 0\<rparr>"

text \<open>Sample files: every path holds an image of one row and 512 columns.\<close>

definition row_image :: nparray where
  "row_image = \<lparr>np_shape = [1, 512], np_at = (\<lambda>idx. real (last idx))\<rparr>"

definition imread_rows :: "string \<Rightarrow> pyexc + nparray" where
  "imread_rows p = Inr row_image"

text \<open>
  Sample files: 512 by 512 images, constant 1 in the virtual stain, 2 in the target stain,
  3 in the phase image.
\<close>

definition flat_image :: "real \<Rightarrow> nparray" where
  "flat_image x = \<lparr>np_shape = [512, 512], np_at = (\<lambda>idx. x)\<rparr>"

definition imread_flat :: "string \<Rightarrow> pyexc + nparray" where
  "imread_flat p =
     (if p = ''v.tiff'' then Inr (flat_image 1)
      else if p = ''t.tiff'' then Inr (flat_image 2)
      else if p = ''p.tiff'' then Inr (flat_image 3)
      else Inl (OSError p))"

section \<open>The segmentation cell\<close>

text \<open>
  A cell is compiled as a whole before any of its statements runs: a line that is not a
  statement makes the cell fail with \<open>SyntaxError\<close>, whatever the lines before it would
  do. \<open>run_steps\<close> is the execution of the statements one after the other;
  \<open>run_cell\<close> compiles first.
\<close>

datatype step = Exec "notebook \<Rightarrow> pyexc + notebook" | Unparsable nat

fun first_unparsable :: "step list \<Rightarrow> nat option" where
  "first_unparsable [] = None"
| "first_unparsable (Exec f # rest) = first_unparsable rest"
| "first_unparsable (Unparsable line # rest) = Some line"

fun run_steps :: "step list \<Rightarrow> notebook \<Rightarrow> pyexc + notebook" where
  "run_steps [] st = Inr st"
| "run_steps (Exec f # rest) st =
     (case f st of Inl e \<Rightarrow> Inl e | Inr st' \<Rightarrow> run_steps rest st')"
| "run_steps (Unparsable line # rest) st = Inl (SyntaxError line)"

definition run_cell :: "step list \<Rightarrow> notebook \<Rightarrow> pyexc + notebook" where
  "run_cell steps st =
     (case first_unparsable steps of
        Some line \<Rightarrow> Inl (SyntaxError line)
      | None \<Rightarrow> run_steps steps st)"

definition bind_global :: "string \<Rightarrow> pyval \<Rightarrow> notebook \<Rightarrow> notebook" where
  "bind_global n v st = st\<lparr>nb_globals := (nb_globals st)(n \<mapsto> v)\<rparr>"

text \<open>Line 521: \<^verbatim>\<open>path_to_virtual_stain = Path(opt.results_dir)\<close>\<close>

definition assign_path_to_virtual_stain :: "notebook \<Rightarrow> pyexc + notebook" where
  "assign_path_to_virtual_stain st =
     (case load_name (nb_globals st) ''opt'' of
        Inl e \<Rightarrow> Inl e
      | Inr _ \<Rightarrow>
          (case path_attr (nb_opt st) ''results_dir'' of
             Inl e \<Rightarrow> Inl e
           | Inr d \<Rightarrow> Inr (bind_global ''path_to_virtual_stain'' (VStr d) st)))"

text \<open>Line 522: \<^verbatim>\<open>path_to_targets = Path(f"{output_image_folder}/test/")\<close>\<close>

definition assign_path_to_targets :: "notebook \<Rightarrow> pyexc + notebook" where
  "assign_path_to_targets st =
     (case load_name (nb_globals st) ''output_image_folder'' of
        Inl e \<Rightarrow> Inl e
      | Inr (VStr folder) \<Rightarrow> Inr (bind_global ''path_to_targets'' (VStr (folder @ ''/test/'')) st)
      | Inr _ \<Rightarrow> Inl (TypeError ''output_image_folder''))"

text \<open>Line 523: \<^verbatim>\<open>cellpose_model = "nuclei"\<close>\<close>

definition assign_cellpose_model :: "notebook \<Rightarrow> pyexc + notebook" where
  "assign_cellpose_model st = Inr (bind_global ''cellpose_model'' (VStr ''nuclei'') st)"

text \<open>
  A \<open>!\<close> line: \<open>$name\<close> is replaced by the value of the global \<open>name\<close>, and left as it is
  when the name is unbound; the command is then run by the shell.
\<close>

definition expand :: "namespace \<Rightarrow> string \<Rightarrow> string" where
  "expand g n = (case g n of Some (VStr s) \<Rightarrow> s | _ \<Rightarrow> CHR ''$'' # n)"

text \<open>
  Lines 525 and 527, which are the same line:
  \<^verbatim>\<open>!python -m cellpose --dir $path_to_virtual_stain --pretrained_model $cellpose_model --chan 0 --save_tiff\<close>
\<close>

definition cellpose_line :: "notebook \<Rightarrow> pyexc + notebook" where
  "cellpose_line st =
     Inr (st\<lparr>nb_shell := nb_shell st @
            [[''python'', ''-m'', ''cellpose'',
              ''--dir'', expand (nb_globals st) ''path_to_virtual_stain'',
              ''--pretrained_model'', expand (nb_globals st) ''cellpose_model'',
              ''--chan'', ''0'', ''--save_tiff'']]\<rparr>)"

text \<open>The directory a cellpose command segments: the argument after \<open>--dir\<close>.\<close>

fun dir_arg :: "string list \<Rightarrow> string option" where
  "dir_arg [] = None"
| "dir_arg [a] = None"
| "dir_arg (a # b # rest) = (if a = ''--dir'' then Some b else dir_arg (b # rest))"

text \<open>
  Line 528:
  \<^verbatim>\<open>predicted_masks = sorted([i for i in path_to_predictions.glob("**/*_cp_masks.tif*")])\<close>
  \<open>glob cmds d\<close> is the list of mask files found under the directory \<open>d\<close> once the shell
  commands \<open>cmds\<close> have run (the file system and the segmentation service are external).
\<close>

definition assign_predicted_masks ::
  "(string list list \<Rightarrow> string \<Rightarrow> string list) \<Rightarrow> notebook \<Rightarrow> pyexc + notebook"
where
  "assign_predicted_masks glob st =
     (case load_name (nb_globals st) ''path_to_predictions'' of
        Inl e \<Rightarrow> Inl e
      | Inr (VStr d) \<Rightarrow>
          Inr (bind_global ''predicted_masks'' (VPaths (sorted_paths (glob (nb_shell st) d))) st)
      | Inr _ \<Rightarrow> Inl (AttributeError ''glob''))"

text \<open>
  Line 530:
  \<^verbatim>\<open>assert len(predicted_masks) == len(target_masks), "Number of masks do not match."\<close>
\<close>

definition assert_mask_counts :: "notebook \<Rightarrow> pyexc + notebook" where
  "assert_mask_counts st =
     (case load_name (nb_globals st) ''predicted_masks'' of
        Inl e \<Rightarrow> Inl e
      | Inr (VPaths predicted_masks) \<Rightarrow>
          (case load_name (nb_globals st) ''target_masks'' of
             Inl e \<Rightarrow> Inl e
           | Inr (VPaths target_masks) \<Rightarrow>
               if length predicted_masks = length target_masks then Inr st
               else Inl (AssertionError ''Number of masks do not match.'')
           | Inr _ \<Rightarrow> Inl (TypeError ''len''))
      | Inr _ \<Rightarrow> Inl (TypeError ''len''))"

text \<open>
  Lines 521 to 530. Line 529 is
  \<^verbatim>\<open>target_masks = sorted([ifor i in Path(path_to_targets).glob("**/*_cp_masks.tif*")])\<close>
  where \<open>ifor i in\<close> is not an expression: the line does not parse.
\<close>

definition mask_cell :: "(string list list \<Rightarrow> string \<Rightarrow> string list) \<Rightarrow> step list" where
  "mask_cell glob =
     [Exec assign_path_to_virtual_stain,
      Exec assign_path_to_targets,
      Exec assign_cellpose_model,
      Exec cellpose_line,
      Exec cellpose_line,
      Exec (assign_predicted_masks glob),
      Unparsable 529,
      Exec assert_mask_counts]"

text \<open>
  The notebook when the segmentation cell starts, after the evaluation cells ran on
  \<open>parsed_defaults\<close>, and a file system in which the results directory holds two mask
  files and the target directory one.
\<close>

definition eval_notebook :: notebook where
  "eval_notebook =
     \<lparr>nb_globals = fresh_globals
        (''translation_task'' \<mapsto> VStr translation_task,
         ''opt'' \<mapsto> VObj ''TestOptions'',
         ''test_dataset'' \<mapsto> VObj ''test stream'',
         ''model'' \<mapsto> VObj ''model''),
      nb_opt = inference_options parsed_defaults output_image_folder translation_task,
      nb_stdout = [], nb_shell = []\<rparr>"

definition uneven_masks :: "string list list \<Rightarrow> string \<Rightarrow> string list" where
  "uneven_masks cmds d =
     (if d = ''./results/'' then [''./results/a_cp_masks.tif'', ''./results/b_cp_masks.tif'']
      else if d = output_image_folder @ ''/test/'' then [d @ ''a_cp_masks.tif'']
      else [])"

text \<open>
  A path loads into a slice of the given height and width when the read succeeds and the
  image broadcasts to the slice.
\<close>

definition loadable :: "(string \<Rightarrow> pyexc + nparray) \<Rightarrow> nat \<times> nat \<Rightarrow> string \<Rightarrow> bool" where
  "loadable imread hw p =
     (case imread p of Inl e \<Rightarrow> False | Inr img \<Rightarrow> broadcastable (np_shape img) hw)"

text \<open>
  The entry at slice \<open>k\<close>, row \<open>r\<close>, column \<open>c\<close> of the array at address \<open>a\<close>, and the
  entry the image read from \<open>p\<close> puts at row \<open>r\<close>, column \<open>c\<close> of a slice.
\<close>

definition cell_at :: "store \<Rightarrow> nat \<Rightarrow> nat \<Rightarrow> nat \<Rightarrow> nat \<Rightarrow> real option" where
  "cell_at s a k r c =
     (case st_heap s a of None \<Rightarrow> None | Some arr \<Rightarrow> Some (arr_data arr k r c))"

definition read_value ::
  "(string \<Rightarrow> pyexc + nparray) \<Rightarrow> string \<Rightarrow> nat \<Rightarrow> nat \<Rightarrow> real option"
where
  "read_value imread p r c =
     (case imread p of Inl e \<Rightarrow> None | Inr img \<Rightarrow> Some (broadcast_value img r c))"

definition has_shape :: "store \<Rightarrow> nat \<Rightarrow> nat \<times> nat \<times> nat \<Rightarrow> bool" where
  "has_shape s a shp = (case st_heap s a of None \<Rightarrow> False | Some arr \<Rightarrow> arr_shape arr = shp)"

definition zeros :: "nat \<Rightarrow> ndarray" where
  "zeros n = \<lparr>arr_shape = (n, 512, 512), arr_data = (\<lambda>k r c. 0)\<rparr>"

section \<open>The training cell: properties\<close>

text \<open>
  Claim C3. With \<open>opt.continue_train\<close> set to \<open>False\<close>, as the notebook sets it,
  \<open>iter_path\<close> is never assigned and is still passed to \<open>train_model\<close>: a run in which
  \<open>iter_path\<close> is unbound when the cell starts, and the other arguments are bound,
  raises \<open>NameError\<close> for \<open>iter_path\<close> while the arguments are evaluated, so the call is
  never made and no training step runs.
\<close>

theorem fresh_start_iter_path_unbound:
  assumes "nb_globals st ''iter_path'' = None"
    and "names_bound (nb_globals st) train_prior_names"
  shows "train_cell notebook_continue_train loadtxt st = Inl (NameError ''iter_path'')"
  using assms
  by (auto simp: train_cell_def notebook_continue_train_def resume_block_def getattr_def
      load_name_def train_model_args_def names_bound_def train_prior_names_def
      split: option.splits sum.splits)

theorem fresh_start_iter_path_unbound_witness:
  "nb_globals fresh_notebook ''iter_path'' = None
   \<and> names_bound (nb_globals fresh_notebook) train_prior_names
   \<and> train_cell notebook_continue_train missing_file fresh_notebook
       = Inl (NameError ''iter_path'')"
  using fresh_start_iter_path_unbound [of fresh_notebook missing_file]
  by (simp add: fresh_notebook_def fresh_globals_def names_bound_def train_prior_names_def)

text \<open>
  Claim C2. On a resume request (\<open>opt.continue_train\<close> set to \<open>True\<close>) whose checkpoint
  iteration file is missing or unreadable, so that reading it raises, the cell does not
  raise: it reaches the call of \<open>train_model\<close> with \<open>start_epoch = 1\<close>, \<open>epoch_iter = 0\<close>
  and \<open>iter_path\<close> the path that could not be read.
\<close>

theorem resume_missing_checkpoint_falls_back:
  assumes "names_bound (nb_globals st) train_prior_names"
    and "nb_opt st ''checkpoints_dir'' = Some (VStr d)"
    and "nb_opt st ''name'' = Some (VStr n)"
    and "loadtxt (os_path_join d [n, ''iter.txt'']) = Inl e"
  shows "\<exists>st' call. train_cell True loadtxt st = Inr (st', call)
           \<and> map_of call ''start_epoch'' = Some (VInt 1)
           \<and> map_of call ''epoch_iter'' = Some (VInt 0)
           \<and> map_of call ''iter_path'' = Some (VStr (os_path_join d [n, ''iter.txt'']))"
  using assms
  by (auto simp: train_cell_def resume_block_def getattr_def path_attr_def read_iter_def
      load_name_def train_model_args_def names_bound_def train_prior_names_def
      split: option.splits sum.splits)

theorem resume_missing_checkpoint_falls_back_witness:
  "names_bound (nb_globals fresh_notebook) train_prior_names
   \<and> nb_opt fresh_notebook ''checkpoints_dir''
       = Some (VStr ''/home/user/data/04_image_translation/dlmbl_vsnuclei/logs'')
   \<and> nb_opt fresh_notebook ''name'' = Some (VStr ''dlmbl_vsnuclei'')
   \<and> missing_file (os_path_join ''/home/user/data/04_image_translation/dlmbl_vsnuclei/logs''
                       [''dlmbl_vsnuclei'', ''iter.txt''])
       = Inl (OSError
           ''/home/user/data/04_image_translation/dlmbl_vsnuclei/logs/dlmbl_vsnuclei/iter.txt'')
   \<and> (case train_cell True missing_file fresh_notebook of
         Inl e \<Rightarrow> False
       | Inr (st', call) \<Rightarrow>
           map_of call ''start_epoch'' = Some (VInt 1)
         \<and> map_of call ''epoch_iter'' = Some (VInt 0)
         \<and> map_of call ''iter_path''
             = Some (VStr
                 ''/home/user/data/04_image_translation/dlmbl_vsnuclei/logs/dlmbl_vsnuclei/iter.txt''))"
  using resume_missing_checkpoint_falls_back [of fresh_notebook
      "''/home/user/data/04_image_translation/dlmbl_vsnuclei/logs''" "''dlmbl_vsnuclei''"
      missing_file
      "OSError ''/home/user/data/04_image_translation/dlmbl_vsnuclei/logs/dlmbl_vsnuclei/iter.txt''"]
  by (auto simp: fresh_notebook_def fresh_globals_def fresh_opt_def names_bound_def
      train_prior_names_def missing_file_def os_path_join_def os_path_join2_def)

text \<open>
  Claim C9. The fallback is taken for any exception raised in the body of the \<open>try\<close>, the
  read of the checkpoint iteration file and the unpacking of what was read: whatever the
  exception is, the resume block returns normally with \<open>start_epoch = 1\<close> and
  \<open>epoch_iter = 0\<close>, and the exception does not reach the caller.
\<close>

theorem bare_except_catches_every_exception:
  assumes "nb_opt st ''continue_train'' = Some c" and "truthy c"
    and "nb_opt st ''checkpoints_dir'' = Some (VStr d)"
    and "nb_opt st ''name'' = Some (VStr n)"
    and "read_iter loadtxt (os_path_join d [n, ''iter.txt'']) = Inl e"
  shows "\<exists>st'. resume_block loadtxt st = Inr st'
           \<and> nb_globals st' ''start_epoch'' = Some (VInt 1)
           \<and> nb_globals st' ''epoch_iter'' = Some (VInt 0)"
  using assms
  by (simp add: resume_block_def getattr_def path_attr_def)

theorem bare_except_catches_every_exception_witness:
  "nb_opt resuming_notebook ''continue_train'' = Some (VBool True) \<and> truthy (VBool True)
   \<and> nb_opt resuming_notebook ''checkpoints_dir''
       = Some (VStr ''/home/user/data/04_image_translation/dlmbl_vsnuclei/logs'')
   \<and> nb_opt resuming_notebook ''name'' = Some (VStr ''dlmbl_vsnuclei'')
   \<and> read_iter interrupted
        (os_path_join ''/home/user/data/04_image_translation/dlmbl_vsnuclei/logs''
                       [''dlmbl_vsnuclei'', ''iter.txt'']) = Inl KeyboardInterrupt
   \<and> (case resume_block interrupted resuming_notebook of
         Inl e \<Rightarrow> False
       | Inr st' \<Rightarrow> nb_globals st' ''start_epoch'' = Some (VInt 1)
                  \<and> nb_globals st' ''epoch_iter'' = Some (VInt 0))"
  using bare_except_catches_every_exception [of resuming_notebook "VBool True"
      "''/home/user/data/04_image_translation/dlmbl_vsnuclei/logs''" "''dlmbl_vsnuclei''"
      interrupted KeyboardInterrupt]
  by (auto simp: resuming_notebook_def fresh_notebook_def fresh_opt_def
      interrupted_def read_iter_def)

section \<open>The options of the inference run: properties\<close>

lemma dict_update_Nil: "dict_update d [] = d"
  by (simp add: dict_update_def)

lemma dict_update_Cons: "dict_update d ((k, v) # kvs) = dict_update (d(k \<mapsto> v)) kvs"
  by (simp add: dict_update_def)

lemma dict_update_other: "k \<notin> fst ` set kvs \<Longrightarrow> dict_update d kvs k = d k"
  by (induction kvs arbitrary: d) (auto simp: dict_update_Nil dict_update_Cons)

lemma inference_options_values:
  "inference_options parsed folder task ''nThreads'' = Some (VInt 1)"
  "inference_options parsed folder task ''batchSize'' = Some (VInt 1)"
  "inference_options parsed folder task ''serial_batches'' = Some (VBool True)"
  "inference_options parsed folder task ''no_flip'' = Some (VBool True)"
  by (simp_all add: inference_options_def Let_def)

text \<open>
  The dictionaries merged into the options spell their keys with two leading dashes, so
  they leave the attribute \<open>results_dir\<close> as the parser set it.
\<close>

lemma inference_options_results_dir:
  "inference_options parsed folder task ''results_dir'' = parsed ''results_dir''"
  by (simp add: inference_options_def Let_def dict_update_other dataset_opt_def
      model_opt_def inference_opt_def)

lemma inference_options_name:
  "inference_options parsed folder task ''name'' = Some (VStr (''dlmbl_vs'' @ task))"
  by (simp add: inference_options_def Let_def dict_update_other inference_opt_def)

lemma map_enumerate_snd: "map (\<lambda>(k, x). f x) (enumerate n xs) = map f xs"
  by (induction xs arbitrary: n) simp_all

lemma inference_model_snd: "snd (inference_model ds rd m) = m"
  by (simp add: inference_model_def)

lemma inference_model_length: "length (fst (inference_model ds rd m)) = length ds"
  by (simp add: inference_model_def)

lemma inference_model_paths:
  "map fst (fst (inference_model ds rd m))
     = map (\<lambda>ex. os_path_join rd [ex_id ex @ ''.tiff'']) ds"
proof -
  have "map fst (fst (inference_model ds rd m))
          = map (\<lambda>(k, ex). os_path_join rd [ex_id ex @ ''.tiff'']) (enumerate 0 ds)"
    by (simp add: inference_model_def case_prod_unfold)
  then show ?thesis by (simp only: map_enumerate_snd)
qed

lemma inference_model_nth:
  "k < length ds \<Longrightarrow>
     snd (fst (inference_model ds rd m) ! k) = m_net m (m_params m) False k (ex_source (ds ! k))"
  by (simp add: inference_model_def nth_enumerate_eq)

text \<open>
  Claim C7. Whatever the options parser returns, the inference run is configured with
  \<open>nThreads = 1\<close>, \<open>batchSize = 1\<close>, \<open>serial_batches = True\<close> (no shuffling) and
  \<open>no_flip = True\<close>; the run leaves the model's parameters as they were and writes one
  output image per Example of the stream, in stream order, each the forward pass of that
  Example's source with stochastic regularization off.
\<close>

theorem inference_runner_configuration:
  assumes "parsed ''results_dir'' = Some (VStr rd)"
  shows "\<exists>opt out m.
           inference_cell parsed folder network weights ds = Inr (opt, out, m)
         \<and> opt ''nThreads'' = Some (VInt 1) \<and> opt ''batchSize'' = Some (VInt 1)
         \<and> opt ''serial_batches'' = Some (VBool True) \<and> opt ''no_flip'' = Some (VBool True)
         \<and> m = create_model network weights opt \<and> m_params m = weights
         \<and> length out = length ds
         \<and> map fst out = map (\<lambda>ex. os_path_join rd [ex_id ex @ ''.tiff'']) ds
         \<and> (\<forall>k < length ds. snd (out ! k) = network weights False k (ex_source (ds ! k)))"
proof -
  let ?opt = "inference_options parsed folder translation_task"
  let ?m = "create_model network weights ?opt"
  have rd: "path_attr ?opt ''results_dir'' = Inr rd"
    using assms by (simp add: path_attr_def getattr_def inference_options_results_dir)
  have cell: "inference_cell parsed folder network weights ds
                = Inr (?opt, fst (inference_model ds rd ?m), snd (inference_model ds rd ?m))"
    by (simp add: inference_cell_def Let_def rd)
  have net: "m_net ?m = network" "m_params ?m = weights"
    by (simp_all add: create_model_def)
  show ?thesis
    using inference_model_nth[of _ ds rd ?m]
    by (simp add: cell net inference_model_snd inference_model_length inference_model_paths
        inference_options_values)
qed

theorem inference_runner_configuration_witness:
  "parsed_defaults ''results_dir'' = Some (VStr ''./results/'')
   \<and> (case inference_cell parsed_defaults output_image_folder noisy_net () two_examples of
         Inl e \<Rightarrow> False
       | Inr (opt, out, m) \<Rightarrow>
           opt ''nThreads'' = Some (VInt 1) \<and> opt ''batchSize'' = Some (VInt 1)
         \<and> opt ''serial_batches'' = Some (VBool True) \<and> opt ''no_flip'' = Some (VBool True)
         \<and> m_params m = () \<and> length out = 2
         \<and> map fst out = [''./results/img_0.tiff'', ''./results/img_1.tiff''])"
proof -
  have h: "parsed_defaults ''results_dir'' = Some (VStr ''./results/'')"
    by (simp add: parsed_defaults_def)
  obtain opt out m where
    "inference_cell parsed_defaults output_image_folder noisy_net () two_examples
       = Inr (opt, out, m)"
    "opt ''nThreads'' = Some (VInt 1)" "opt ''batchSize'' = Some (VInt 1)"
    "opt ''serial_batches'' = Some (VBool True)" "opt ''no_flip'' = Some (VBool True)"
    "length out = length two_examples"
    "map fst out = map (\<lambda>ex. os_path_join ''./results/'' [ex_id ex @ ''.tiff'']) two_examples"
    using h inference_runner_configuration
            [of parsed_defaults "''./results/''" output_image_folder noisy_net "()" two_examples]
    by blast
  then show ?thesis
    using h by (simp add: two_examples_def os_path_join_def os_path_join2_def)
qed

section \<open>The Stochastic Sampler: properties\<close>

lemma sampler_options_Inr:
  assumes "opt ''name'' = Some (VStr n)"
  shows "\<exists>opt'. sampler_options opt = Inr opt'
           \<and> opt' ''variational_inf_runs'' = Some (VInt 100)
           \<and> opt' ''dropout_variation_inf'' = Some (VBool True)"
  using assms by (simp add: sampler_options_def getattr_def)

lemma uncertainty_map_pixel:
  "uncertainty_map samples = Some u \<Longrightarrow>
     pixel u r c = variance (map (\<lambda>x. pixel x r c) samples)"
  by (auto simp: uncertainty_map_def split: list.splits)

lemma uncertainty_map_Some: "samples \<noteq> [] \<Longrightarrow> \<exists>u. uncertainty_map samples = Some u"
  by (cases samples) (simp_all add: uncertainty_map_def)

lemma sampling_100:
  assumes "opt ''variational_inf_runs'' = Some (VInt 100)"
  shows "\<exists>out. sampling ds opt m = Inr out \<and> length out = length ds
     \<and> (\<forall>i < length ds.
           sm_id (out ! i) = ex_id (ds ! i)
         \<and> sm_samples (out ! i)
             = map (\<lambda>k. m_net m (m_params m) (m_dropout m) (i * 100 + k) (ex_source (ds ! i)))
                   [0..<100]
         \<and> sm_uncertainty (out ! i) = uncertainty_map (sm_samples (out ! i)))"
  using assms
  by (simp add: sampling_def getattr_def nth_enumerate_eq Let_def)

text \<open>
  Claim C8. On options that carry a name, the sampling cell creates the model with
  stochastic regularization enabled and produces, for every Example of the stream,
  exactly 100 forward passes of that Example's source, each with regularization on and a
  random draw of its own; the Example's UncertaintyMap is the per-pixel variance of those
  100 samples.
\<close>

theorem stochastic_sampler_ensemble:
  assumes "opt ''name'' = Some (VStr n)"
  shows "\<exists>model out.
           sampling_cell opt network weights ds = Inr (model, out)
         \<and> m_dropout model
         \<and> length out = length ds
         \<and> (\<forall>i < length ds.
               sm_id (out ! i) = ex_id (ds ! i)
             \<and> length (sm_samples (out ! i)) = 100
             \<and> (\<forall>k < 100. sm_samples (out ! i) ! k
                              = network weights True (i * 100 + k) (ex_source (ds ! i)))
             \<and> (\<exists>u. sm_uncertainty (out ! i) = Some u
                   \<and> (\<forall>r c. pixel u r c
                              = variance (map (\<lambda>s. pixel s r c) (sm_samples (out ! i))))))"
proof -
  obtain opt' where o: "sampler_options opt = Inr opt'"
      "opt' ''variational_inf_runs'' = Some (VInt 100)"
      "opt' ''dropout_variation_inf'' = Some (VBool True)"
    using sampler_options_Inr[of opt n] assms by blast
  let ?m = "create_model network weights opt'"
  have m: "m_net ?m = network" "m_params ?m = weights" "m_dropout ?m"
    using o(3) by (simp_all add: create_model_def)
  obtain out where s: "sampling ds opt' ?m = Inr out" "length out = length ds"
    and each: "\<And>i. i < length ds \<Longrightarrow>
           sm_id (out ! i) = ex_id (ds ! i)
         \<and> sm_samples (out ! i)
             = map (\<lambda>k. network weights True (i * 100 + k) (ex_source (ds ! i))) [0..<100]
         \<and> sm_uncertainty (out ! i) = uncertainty_map (sm_samples (out ! i))"
    using sampling_100[of opt' ds ?m] o(2) m by auto
  have cell: "sampling_cell opt network weights ds = Inr (?m, out)"
    by (simp add: sampling_cell_def o(1) s(1) Let_def)
  have "sm_id (out ! i) = ex_id (ds ! i)
             \<and> length (sm_samples (out ! i)) = 100
             \<and> (\<forall>k < 100. sm_samples (out ! i) ! k
                              = network weights True (i * 100 + k) (ex_source (ds ! i)))
             \<and> (\<exists>u. sm_uncertainty (out ! i) = Some u
                   \<and> (\<forall>r c. pixel u r c
                              = variance (map (\<lambda>s. pixel s r c) (sm_samples (out ! i)))))"
    if i: "i < length ds" for i
  proof -
    note e = each[OF i]
    have len: "length (sm_samples (out ! i)) = 100" using e by simp
    then have ne: "sm_samples (out ! i) \<noteq> []" by auto
    obtain u where u: "uncertainty_map (sm_samples (out ! i)) = Some u"
      using uncertainty_map_Some[of "sm_samples (out ! i)"] ne by blast
    have nth: "\<forall>k < 100. sm_samples (out ! i) ! k
                              = network weights True (i * 100 + k) (ex_source (ds ! i))"
      using e by (simp del: upt_Suc)
    show ?thesis
      using e len nth u uncertainty_map_pixel[of "sm_samples (out ! i)" u] by simp
  qed
  then show ?thesis using cell m(3) s(2) by blast
qed

theorem stochastic_sampler_ensemble_witness:
  "inference_options parsed_defaults output_image_folder translation_task ''name''
     = Some (VStr ''dlmbl_vsnuclei'')
   \<and> (case sampling_cell (inference_options parsed_defaults output_image_folder translation_task)
              noisy_net () two_examples of
         Inl e \<Rightarrow> False
       | Inr (model, out) \<Rightarrow>
           m_dropout model \<and> length out = 2
         \<and> length (sm_samples (out ! 1)) = 100
         \<and> sm_samples (out ! 1) ! 3 = noisy_net () True 103 blank)"
proof -
  let ?opt = "inference_options parsed_defaults output_image_folder translation_task"
  have h: "?opt ''name'' = Some (VStr ''dlmbl_vsnuclei'')"
    by (simp add: inference_options_name translation_task_def)
  obtain model out where c: "sampling_cell ?opt noisy_net () two_examples = Inr (model, out)"
    "m_dropout model" "length out = length two_examples"
    and each: "\<forall>i < length two_examples.
               sm_id (out ! i) = ex_id (two_examples ! i)
             \<and> length (sm_samples (out ! i)) = 100
             \<and> (\<forall>k < 100. sm_samples (out ! i) ! k
                              = noisy_net () True (i * 100 + k) (ex_source (two_examples ! i)))
             \<and> (\<exists>u. sm_uncertainty (out ! i) = Some u
                   \<and> (\<forall>r c. pixel u r c
                              = variance (map (\<lambda>s. pixel s r c) (sm_samples (out ! i)))))"
    using h stochastic_sampler_ensemble
            [of ?opt "''dlmbl_vsnuclei''" noisy_net "()" two_examples]
    by blast
  have one: "(1::nat) < length two_examples" by (simp add: two_examples_def)
  have three: "(3::nat) < 100" by simp
  from each one have "length (sm_samples (out ! 1)) = 100"
    "\<forall>k < 100. sm_samples (out ! 1) ! k
                              = noisy_net () True (1 * 100 + k) (ex_source (two_examples ! 1))"
    by blast+
  with three have "length (sm_samples (out ! 1)) = 100"
    "sm_samples (out ! 1) ! 3 = noisy_net () True 103 (ex_source (two_examples ! 1))"
    by auto
  then show ?thesis
    using h c by (simp add: two_examples_def)
qed

section \<open>Gathering and loading: properties\<close>

lemma insert_path_length: "length (insert_path p qs) = Suc (length qs)"
  by (induction qs) simp_all

lemma insert_path_set: "set (insert_path p qs) = insert p (set qs)"
  by (induction qs) auto

lemma sorted_paths_length: "length (sorted_paths ps) = length ps"
  by (induction ps) (simp_all add: sorted_paths_def insert_path_length)

lemma sorted_paths_set: "set (sorted_paths ps) = set ps"
  by (induction ps) (simp_all add: sorted_paths_def insert_path_set)

text \<open>
  The first counting assertion: unequal counts of virtual-stain, target and phase files
  end the cell with the assertion's message, before any array is allocated or file read.
\<close>

lemma gather_results_mismatch:
  "\<not> (length vg = length tg \<and> length tg = length pg) \<Longrightarrow>
     gather_results vg tg pg = Inl (AssertionError ''Number of images do not match.'')"
  by (auto simp: gather_results_def sorted_paths_length Let_def)

lemma load_cell_mismatch:
  "\<not> (length vg = length tg \<and> length tg = length pg) \<Longrightarrow>
     load_cell imread vg tg pg s = Inl (AssertionError ''Number of images do not match.'')"
  by (simp add: load_cell_def gather_results_mismatch)

lemma setitem_other:
  "setitem a i img s = Inr s' \<Longrightarrow> b \<noteq> a \<Longrightarrow> st_heap s' b = st_heap s b"
  by (auto simp: setitem_def split: option.splits prod.splits if_splits)

lemma setitem_shape:
  "setitem a i img s = Inr s' \<Longrightarrow> has_shape s b shp \<Longrightarrow> has_shape s' b shp"
  by (auto simp: setitem_def has_shape_def split: option.splits prod.splits if_splits)

lemma setitem_cases:
  assumes "has_shape s a (n, h, w)" "i < n"
  shows "(broadcastable (np_shape img) (h, w) \<and> (\<exists>s'. setitem a i img s = Inr s'))
       \<or> (\<not> broadcastable (np_shape img) (h, w) \<and> (\<exists>e. setitem a i img s = Inl e))"
  using assms
  by (auto simp: setitem_def has_shape_def split: option.splits prod.splits)

text \<open>
  The loop invariant: the three arrays keep their shape, and the index stays inside the
  first dimension. Under it the loop ends normally exactly when every path of every
  triple loads.
\<close>

lemma load_images_ok_iff:
  assumes "has_shape s va (n, h, w)" "has_shape s ta (n, h, w)" "has_shape s pa (n, h, w)"
    and "index + length triples \<le> n"
  shows "(\<not> isl (load_images imread (va, ta, pa) index triples s))
       = (\<forall>(v, t, p) \<in> set triples.
            loadable imread (h, w) v \<and> loadable imread (h, w) t \<and> loadable imread (h, w) p)"
  using assms
proof (induction triples arbitrary: s index)
  case Nil
  then show ?case by simp
next
  case (Cons x rest)
  obtain v t p where x: "x = (v, t, p)" by (cases x) auto
  have i: "index < n" and rest: "Suc index + length rest \<le> n"
    using Cons.prems(4) by simp_all
  show ?case
  proof (cases "imread v")
    case (Inl e)
    then show ?thesis by (simp add: x loadable_def)
  next
    case v: (Inr vi)
    show ?thesis
    proof (cases "imread p")
      case (Inl e)
      then show ?thesis by (simp add: x v loadable_def)
    next
      case p: (Inr pi)
      show ?thesis
      proof (cases "imread t")
        case (Inl e)
        then show ?thesis by (simp add: x v p loadable_def)
      next
        case t: (Inr ti)
        from setitem_cases[OF Cons.prems(3) i, of pi] show ?thesis
        proof (elim disjE conjE exE)
          fix e assume "\<not> broadcastable (np_shape pi) (h, w)" "setitem pa index pi s = Inl e"
          then show ?thesis by (simp add: x v p t loadable_def)
        next
          fix s1 assume bp: "broadcastable (np_shape pi) (h, w)" and s1: "setitem pa index pi s = Inr s1"
          have sh1: "has_shape s1 va (n, h, w)" "has_shape s1 ta (n, h, w)"
            "has_shape s1 pa (n, h, w)"
            using setitem_shape[OF s1] Cons.prems(1-3) by blast+
          from setitem_cases[OF sh1(2) i, of ti] show ?thesis
          proof (elim disjE conjE exE)
            fix e assume "\<not> broadcastable (np_shape ti) (h, w)" "setitem ta index ti s1 = Inl e"
            then show ?thesis by (simp add: x v p t s1 loadable_def)
          next
            fix s2 assume bt: "broadcastable (np_shape ti) (h, w)"
              and s2: "setitem ta index ti s1 = Inr s2"
            have sh2: "has_shape s2 va (n, h, w)" "has_shape s2 ta (n, h, w)"
              "has_shape s2 pa (n, h, w)"
              using setitem_shape[OF s2] sh1 by blast+
            from setitem_cases[OF sh2(1) i, of vi] show ?thesis
            proof (elim disjE conjE exE)
              fix e assume "\<not> broadcastable (np_shape vi) (h, w)" "setitem va index vi s2 = Inl e"
              then show ?thesis by (simp add: x v p t s1 s2 loadable_def)
            next
              fix s3 assume bv: "broadcastable (np_shape vi) (h, w)"
                and s3: "setitem va index vi s2 = Inr s3"
              have sh3: "has_shape s3 va (n, h, w)" "has_shape s3 ta (n, h, w)"
                "has_shape s3 pa (n, h, w)"
                using setitem_shape[OF s3] sh2 by blast+
              have "(\<not> isl (load_images imread (va, ta, pa) (Suc index) rest s3))
                  = (\<forall>(v, t, p) \<in> set rest.
                       loadable imread (h, w) v \<and> loadable imread (h, w) t
                     \<and> loadable imread (h, w) p)"
                using Cons.IH[OF sh3 rest] .
              then show ?thesis
                by (simp add: x v p t s1 s2 s3 bp bt bv loadable_def)
            qed
          qed
        qed
      qed
    qed
  qed
qed

lemma zip3_all:
  "length xs = length ys \<Longrightarrow> length ys = length zs \<Longrightarrow>
     (\<forall>(x, y, z) \<in> set (zip xs (zip ys zs)). P x \<and> P y \<and> P z)
   = (\<forall>x \<in> set xs \<union> set ys \<union> set zs. P x)"
  by (induction xs ys zs rule: list_induct3) auto

lemma alloc_arrays_result:
  "alloc_arrays n s =
     Some ((st_next s, Suc (st_next s), Suc (Suc (st_next s))),
           s\<lparr>st_heap := (st_heap s)
                (st_next s \<mapsto> zeros n, Suc (st_next s) \<mapsto> zeros n,
                 Suc (Suc (st_next s)) \<mapsto> zeros n),
              st_next := Suc (Suc (Suc (st_next s)))\<rparr>)"
  by (simp add: alloc_arrays_def np_zeros_def np_copy_def alloc_def zeros_def)

lemma load_cell_ok_iff:
  "(\<not> isl (load_cell imread vg tg pg s))
     = (length vg = length tg \<and> length tg = length pg
        \<and> (\<forall>p \<in> set vg \<union> set tg \<union> set pg. loadable imread (512, 512) p))"
proof (cases "length vg = length tg \<and> length tg = length pg")
  case False
  then have "load_cell imread vg tg pg s
               = Inl (AssertionError ''Number of images do not match.'')"
    by (rule load_cell_mismatch)
  with False show ?thesis by auto
next
  case True
  let ?vs = "sorted_paths vg" and ?ts = "sorted_paths tg" and ?ps = "sorted_paths pg"
  let ?n = "length ?vs"
  obtain va ta pa s' where al: "alloc_arrays ?n s = Some ((va, ta, pa), s')"
    and sh: "has_shape s' va (?n, 512, 512)" "has_shape s' ta (?n, 512, 512)"
            "has_shape s' pa (?n, 512, 512)"
    by (simp add: alloc_arrays_result has_shape_def zeros_def)
  have g: "gather_results vg tg pg = Inr (?vs, ?ts, ?ps)"
    using True by (simp add: gather_results_def sorted_paths_length Let_def)
  have len: "0 + length (zip ?vs (zip ?ts ?ps)) \<le> ?n"
    by simp
  have "(\<not> isl (load_cell imread vg tg pg s))
       = (\<not> isl (load_images imread (va, ta, pa) 0 (zip ?vs (zip ?ts ?ps)) s'))"
    by (simp add: load_cell_def g al split: sum.splits)
  also have "\<dots> = (\<forall>(v, t, p) \<in> set (zip ?vs (zip ?ts ?ps)).
            loadable imread (512, 512) v \<and> loadable imread (512, 512) t
          \<and> loadable imread (512, 512) p)"
    using load_images_ok_iff[OF sh len] .
  also have "\<dots> = (\<forall>p \<in> set ?vs \<union> set ?ts \<union> set ?ps. loadable imread (512, 512) p)"
    using True by (intro zip3_all) (simp_all add: sorted_paths_length)
  finally show ?thesis using True by (simp add: sorted_paths_set)
qed

text \<open>
  Shapes that broadcast to a 512 by 512 slice, and shapes that do not: a single page
  (1, 512, 512) loads, a colour image (512, 512, 3) is refused.
\<close>

lemma broadcastable_examples:
  "broadcastable [512, 512] (512, 512)"
  "broadcastable [1, 512] (512, 512)"
  "broadcastable [512] (512, 512)"
  "broadcastable [] (512, 512)"
  "broadcastable [1, 512, 512] (512, 512)"
  "\<not> broadcastable [512, 512, 3] (512, 512)"
  "\<not> broadcastable [256, 256] (512, 512)"
  "\<not> broadcastable [2, 512, 512] (512, 512)"
  by (simp_all add: broadcastable_def)

lemma setitem_cell_same:
  "setitem a i img s = Inr s' \<Longrightarrow> has_shape s a (n, h, w) \<Longrightarrow> r < h \<Longrightarrow> c < w \<Longrightarrow>
     cell_at s' a i r c = Some (broadcast_value img r c)"
  by (auto simp: setitem_def has_shape_def cell_at_def split: option.splits prod.splits if_splits)

lemma setitem_cell_other_index:
  "setitem a i img s = Inr s' \<Longrightarrow> k \<noteq> i \<Longrightarrow> cell_at s' a k r c = cell_at s a k r c"
  by (auto simp: setitem_def cell_at_def split: option.splits prod.splits if_splits)

lemma setitem_cell_other_addr:
  "setitem a i img s = Inr s' \<Longrightarrow> b \<noteq> a \<Longrightarrow> cell_at s' b k r c = cell_at s b k r c"
  by (simp add: cell_at_def setitem_other)

lemma load_images_ConsE:
  assumes "load_images imread (va, ta, pa) index ((v, t, p) # rest) s = Inr s'"
  obtains vi pi ti s1 s2 s3 where
    "imread v = Inr vi" "imread p = Inr pi" "imread t = Inr ti"
    "setitem pa index pi s = Inr s1" "setitem ta index ti s1 = Inr s2"
    "setitem va index vi s2 = Inr s3"
    "load_images imread (va, ta, pa) (Suc index) rest s3 = Inr s'"
  using assms by (auto split: sum.splits)

lemma load_images_shape:
  "load_images imread (va, ta, pa) index triples s = Inr s' \<Longrightarrow> has_shape s b shp \<Longrightarrow>
     has_shape s' b shp"
proof (induction triples arbitrary: s index)
  case Nil
  then show ?case by simp
next
  case (Cons x rest)
  obtain v t p where x: "x = (v, t, p)" by (cases x) auto
  from Cons.prems(1)[unfolded x] show ?case
  proof (rule load_images_ConsE)
    fix vi pi ti s1 s2 s3
    assume "setitem pa index pi s = Inr s1" "setitem ta index ti s1 = Inr s2"
      "setitem va index vi s2 = Inr s3"
      and rec: "load_images imread (va, ta, pa) (Suc index) rest s3 = Inr s'"
    then have "has_shape s3 b shp"
      using Cons.prems(2) setitem_shape by blast
    then show ?thesis using Cons.IH[OF rec] by blast
  qed
qed

text \<open>The loop writes no slice below its index, in any array.\<close>

lemma load_images_below:
  assumes "load_images imread (va, ta, pa) index triples s = Inr s'" and "k < index"
  shows "cell_at s' b k r c = cell_at s b k r c"
  using assms
proof (induction triples arbitrary: s index)
  case Nil
  then show ?case by simp
next
  case (Cons x rest)
  obtain v t p where x: "x = (v, t, p)" by (cases x) auto
  from Cons.prems(1)[unfolded x] show ?case
  proof (rule load_images_ConsE)
    fix vi pi ti s1 s2 s3
    assume s1: "setitem pa index pi s = Inr s1" and s2: "setitem ta index ti s1 = Inr s2"
      and s3: "setitem va index vi s2 = Inr s3"
      and rec: "load_images imread (va, ta, pa) (Suc index) rest s3 = Inr s'"
    have ne: "k \<noteq> index" using Cons.prems(2) by simp
    have step: "cell_at s2' b k r c = cell_at s1' b k r c"
      if "setitem a index img s1' = Inr s2'" for a img s1' s2'
      using that ne setitem_cell_other_index[of a index img s1' s2' k r c]
        setitem_cell_other_addr[of a index img s1' s2' b k r c]
      by (cases "b = a") auto
    have "cell_at s' b k r c = cell_at s3 b k r c"
      using Cons.IH[OF rec] Cons.prems(2) by simp
    also have "\<dots> = cell_at s2 b k r c" using step[OF s3] .
    also have "\<dots> = cell_at s1 b k r c" using step[OF s2] .
    also have "\<dots> = cell_at s b k r c" using step[OF s1] .
    finally show ?thesis .
  qed
qed

text \<open>
  When the loop ends normally, slice \<open>index + j\<close> of each of the three arrays holds the
  broadcast image read from its own path of the \<open>j\<close>-th triple.
\<close>

lemma load_images_contents:
  assumes "load_images imread (va, ta, pa) index triples s = Inr s'"
    and "distinct [va, ta, pa]"
    and "has_shape s va (n, h, w)" "has_shape s ta (n, h, w)" "has_shape s pa (n, h, w)"
    and "j < length triples" "r < h" "c < w"
  shows "cell_at s' va (index + j) r c = read_value imread (fst (triples ! j)) r c
       \<and> cell_at s' ta (index + j) r c = read_value imread (fst (snd (triples ! j))) r c
       \<and> cell_at s' pa (index + j) r c = read_value imread (snd (snd (triples ! j))) r c"
  using assms
proof (induction triples arbitrary: s index j)
  case Nil
  then show ?case by simp
next
  case (Cons x rest)
  obtain v t p where x: "x = (v, t, p)" by (cases x) auto
  have d: "va \<noteq> ta" "va \<noteq> pa" "ta \<noteq> pa" using Cons.prems(2) by auto
  from Cons.prems(1)[unfolded x] show ?case
  proof (rule load_images_ConsE)
    fix vi pi ti s1 s2 s3
    assume rd: "imread v = Inr vi" "imread p = Inr pi" "imread t = Inr ti"
      and s1: "setitem pa index pi s = Inr s1" and s2: "setitem ta index ti s1 = Inr s2"
      and s3: "setitem va index vi s2 = Inr s3"
      and rec: "load_images imread (va, ta, pa) (Suc index) rest s3 = Inr s'"
    have sh1: "has_shape s1 va (n, h, w)" "has_shape s1 ta (n, h, w)" "has_shape s1 pa (n, h, w)"
      using setitem_shape[OF s1] Cons.prems(3-5) by blast+
    have sh2: "has_shape s2 va (n, h, w)" "has_shape s2 ta (n, h, w)" "has_shape s2 pa (n, h, w)"
      using setitem_shape[OF s2] sh1 by blast+
    have sh3: "has_shape s3 va (n, h, w)" "has_shape s3 ta (n, h, w)" "has_shape s3 pa (n, h, w)"
      using setitem_shape[OF s3] sh2 by blast+
    show ?thesis
    proof (cases j)
      case 0
      have below: "cell_at s' b index r c = cell_at s3 b index r c" for b
        using load_images_below[OF rec, of index b r c] by simp
      have pa: "cell_at s3 pa index r c = Some (broadcast_value pi r c)"
      proof -
        have "cell_at s3 pa index r c = cell_at s2 pa index r c"
          using setitem_cell_other_addr[OF s3, of pa] d by simp
        also have "\<dots> = cell_at s1 pa index r c"
          using setitem_cell_other_addr[OF s2, of pa] d by simp
        also have "\<dots> = Some (broadcast_value pi r c)"
          using setitem_cell_same[OF s1 Cons.prems(5) Cons.prems(7,8)] .
        finally show ?thesis .
      qed
      have ta: "cell_at s3 ta index r c = Some (broadcast_value ti r c)"
      proof -
        have "cell_at s3 ta index r c = cell_at s2 ta index r c"
          using setitem_cell_other_addr[OF s3, of ta] d by simp
        also have "\<dots> = Some (broadcast_value ti r c)"
          using setitem_cell_same[OF s2 sh1(2) Cons.prems(7,8)] .
        finally show ?thesis .
      qed
      have va: "cell_at s3 va index r c = Some (broadcast_value vi r c)"
        using setitem_cell_same[OF s3 sh2(1) Cons.prems(7,8)] .
      show ?thesis
        using 0 below pa ta va rd by (simp add: x read_value_def)
    next
      case (Suc j')
      then have j': "j' < length rest" using Cons.prems(6) by simp
      have "cell_at s' va (Suc index + j') r c = read_value imread (fst (rest ! j')) r c
       \<and> cell_at s' ta (Suc index + j') r c = read_value imread (fst (snd (rest ! j'))) r c
       \<and> cell_at s' pa (Suc index + j') r c = read_value imread (snd (snd (rest ! j'))) r c"
        using Cons.IH[OF rec Cons.prems(2) sh3 j' Cons.prems(7,8)] .
      then show ?thesis using Suc by simp
    qed
  qed
qed

text \<open>
  Claim C10, as stated, fails: three files that each hold an image of one row and 512
  columns are loaded without error, each row broadcast over the 512 rows of its slice,
  although no image read is 512 by 512.
\<close>

theorem loading_accepts_one_row_images:
  "\<not> isl (load_cell imread_rows [''v.tiff''] [''t.tiff''] [''p.tiff''] empty_store)
   \<and> imread_rows ''v.tiff'' = Inr row_image \<and> imread_rows ''t.tiff'' = Inr row_image
   \<and> imread_rows ''p.tiff'' = Inr row_image \<and> np_shape row_image = [1, 512]"
  by (simp add: load_cell_ok_iff loadable_def imread_rows_def row_image_def broadcastable_def)

text \<open>
  Claim C10, amended. In every evaluation run that passes the counting assertion, the
  cell allocates the virtual-stain, target-stain and phase arrays at three distinct
  addresses, each a zero array of shape (number of matched files, 512, 512), and runs the
  loading loop on exactly these arrays. When the loop succeeds, the three arrays still
  have that shape, every image read broadcasts to 512 by 512 (so the loop succeeds only
  when each does), and every slice of each array holds the image read from that array's
  own file of that index, so no write into one array changed another.
\<close>

theorem image_arrays_independent_and_broadcast:
  assumes "length vg = length tg" and "length tg = length pg"
  shows "\<exists>va ta pa s0.
      alloc_arrays (length vg) s = Some ((va, ta, pa), s0)
    \<and> distinct [va, ta, pa]
    \<and> st_heap s0 va = Some \<lparr>arr_shape = (length vg, 512, 512), arr_data = (\<lambda>k r c. 0)\<rparr>
    \<and> st_heap s0 ta = Some \<lparr>arr_shape = (length vg, 512, 512), arr_data = (\<lambda>k r c. 0)\<rparr>
    \<and> st_heap s0 pa = Some \<lparr>arr_shape = (length vg, 512, 512), arr_data = (\<lambda>k r c. 0)\<rparr>
    \<and> load_cell imread vg tg pg s
        = (case load_images imread (va, ta, pa) 0
                  (zip (sorted_paths vg) (zip (sorted_paths tg) (sorted_paths pg))) s0 of
             Inl e \<Rightarrow> Inl e
           | Inr s' \<Rightarrow> Inr ((va, ta, pa), s'))
    \<and> (\<forall>s'. load_cell imread vg tg pg s = Inr ((va, ta, pa), s') \<longrightarrow>
            has_shape s' va (length vg, 512, 512)
          \<and> has_shape s' ta (length vg, 512, 512)
          \<and> has_shape s' pa (length vg, 512, 512)
          \<and> (\<forall>p \<in> set vg \<union> set tg \<union> set pg. loadable imread (512, 512) p)
          \<and> (\<forall>k < length vg. \<forall>r < 512. \<forall>c < 512.
                cell_at s' va k r c = read_value imread (sorted_paths vg ! k) r c
              \<and> cell_at s' ta k r c = read_value imread (sorted_paths tg ! k) r c
              \<and> cell_at s' pa k r c = read_value imread (sorted_paths pg ! k) r c))"
proof -
  let ?vs = "sorted_paths vg" and ?ts = "sorted_paths tg" and ?ps = "sorted_paths pg"
  let ?n = "length vg"
  let ?z = "\<lparr>arr_shape = (?n, 512, 512), arr_data = (\<lambda>k r c. 0::real)\<rparr>"
  let ?triples = "zip ?vs (zip ?ts ?ps)"
  define va where "va = st_next s"
  define ta where "ta = Suc (st_next s)"
  define pa where "pa = Suc (Suc (st_next s))"
  define s0 where "s0 = s\<lparr>st_heap := (st_heap s)(va \<mapsto> zeros ?n, ta \<mapsto> zeros ?n, pa \<mapsto> zeros ?n),
                           st_next := Suc (Suc (Suc (st_next s)))\<rparr>"
  have al: "alloc_arrays ?n s = Some ((va, ta, pa), s0)"
    by (simp add: alloc_arrays_result va_def ta_def pa_def s0_def)
  have al': "alloc_arrays (length ?vs) s = Some ((va, ta, pa), s0)"
    using al by (simp add: sorted_paths_length)
  have dist: "distinct [va, ta, pa]"
    by (simp add: va_def ta_def pa_def)
  have heap: "st_heap s0 va = Some ?z" "st_heap s0 ta = Some ?z" "st_heap s0 pa = Some ?z"
    using dist by (simp_all add: s0_def zeros_def)
  have sh0: "has_shape s0 va (?n, 512, 512)" "has_shape s0 ta (?n, 512, 512)"
    "has_shape s0 pa (?n, 512, 512)"
    using heap by (simp_all add: has_shape_def)
  have g: "gather_results vg tg pg = Inr (?vs, ?ts, ?ps)"
    using assms by (simp add: gather_results_def sorted_paths_length Let_def)
  have cell: "load_cell imread vg tg pg s
        = (case load_images imread (va, ta, pa) 0 ?triples s0 of
             Inl e \<Rightarrow> Inl e
           | Inr s' \<Rightarrow> Inr ((va, ta, pa), s'))"
    by (simp add: load_cell_def g al')
  have len: "length ?triples = ?n"
    using assms by (simp add: sorted_paths_length)
  have nth: "?triples ! k = (?vs ! k, ?ts ! k, ?ps ! k)" if "k < ?n" for k
    using that assms by (simp add: sorted_paths_length)
  have after: "has_shape s' va (?n, 512, 512)
          \<and> has_shape s' ta (?n, 512, 512)
          \<and> has_shape s' pa (?n, 512, 512)
          \<and> (\<forall>p \<in> set vg \<union> set tg \<union> set pg. loadable imread (512, 512) p)
          \<and> (\<forall>k < ?n. \<forall>r < 512. \<forall>c < 512.
                cell_at s' va k r c = read_value imread (?vs ! k) r c
              \<and> cell_at s' ta k r c = read_value imread (?ts ! k) r c
              \<and> cell_at s' pa k r c = read_value imread (?ps ! k) r c)"
    if ok: "load_cell imread vg tg pg s = Inr ((va, ta, pa), s')" for s'
  proof -
    have li: "load_images imread (va, ta, pa) 0 ?triples s0 = Inr s'"
      using ok cell by (auto split: sum.splits)
    have shapes: "has_shape s' va (?n, 512, 512)" "has_shape s' ta (?n, 512, 512)"
      "has_shape s' pa (?n, 512, 512)"
      using load_images_shape[OF li] sh0 by blast+
    have "\<not> isl (load_cell imread vg tg pg s)" using ok by simp
    then have loadable: "\<forall>p \<in> set vg \<union> set tg \<union> set pg. loadable imread (512, 512) p"
      by (simp add: load_cell_ok_iff)
    have contents: "cell_at s' va k r c = read_value imread (?vs ! k) r c
              \<and> cell_at s' ta k r c = read_value imread (?ts ! k) r c
              \<and> cell_at s' pa k r c = read_value imread (?ps ! k) r c"
      if k: "k < ?n" and r: "r < 512" and c: "c < 512" for k r c
    proof -
      have kk: "k < length ?triples" using k len by simp
      show ?thesis
        using load_images_contents[OF li dist sh0 kk r c] nth[OF k] by simp
    qed
    show ?thesis using shapes loadable contents by blast
  qed
  show ?thesis
    using al dist heap cell after by blast
qed

theorem image_arrays_independent_and_broadcast_witness:
  "length [''v.tiff''] = length [''t.tiff''] \<and> length [''t.tiff''] = length [''p.tiff'']
   \<and> alloc_arrays 1 empty_store \<noteq> None
   \<and> (case load_cell imread_flat [''v.tiff''] [''t.tiff''] [''p.tiff''] empty_store of
         Inl e \<Rightarrow> False
       | Inr (refs, s') \<Rightarrow>
           refs = (0, 1, 2)
         \<and> has_shape s' 0 (1, 512, 512) \<and> has_shape s' 1 (1, 512, 512)
         \<and> has_shape s' 2 (1, 512, 512)
         \<and> loadable imread_flat (512, 512) ''v.tiff''
         \<and> cell_at s' 0 0 3 4 = Some 1 \<and> cell_at s' 1 0 3 4 = Some 2
         \<and> cell_at s' 2 0 3 4 = Some 3)"
proof -
  have h: "length [''v.tiff''] = length [''t.tiff'']" "length [''t.tiff''] = length [''p.tiff'']"
    by simp_all
  obtain va ta pa s0 where
    al: "alloc_arrays (length [''v.tiff'']) empty_store = Some ((va, ta, pa), s0)"
    and cell: "load_cell imread_flat [''v.tiff''] [''t.tiff''] [''p.tiff''] empty_store
        = (case load_images imread_flat (va, ta, pa) 0
                  (zip (sorted_paths [''v.tiff''])
                       (zip (sorted_paths [''t.tiff'']) (sorted_paths [''p.tiff'']))) s0 of
             Inl e \<Rightarrow> Inl e
           | Inr s' \<Rightarrow> Inr ((va, ta, pa), s'))"
    and after: "\<forall>s'. load_cell imread_flat [''v.tiff''] [''t.tiff''] [''p.tiff''] empty_store
              = Inr ((va, ta, pa), s') \<longrightarrow>
            has_shape s' va (length [''v.tiff''], 512, 512)
          \<and> has_shape s' ta (length [''v.tiff''], 512, 512)
          \<and> has_shape s' pa (length [''v.tiff''], 512, 512)
          \<and> (\<forall>p \<in> set [''v.tiff''] \<union> set [''t.tiff''] \<union> set [''p.tiff''].
                loadable imread_flat (512, 512) p)
          \<and> (\<forall>k < length [''v.tiff'']. \<forall>r < 512. \<forall>c < 512.
                cell_at s' va k r c = read_value imread_flat (sorted_paths [''v.tiff''] ! k) r c
              \<and> cell_at s' ta k r c = read_value imread_flat (sorted_paths [''t.tiff''] ! k) r c
              \<and> cell_at s' pa k r c = read_value imread_flat (sorted_paths [''p.tiff''] ! k) r c)"
    using image_arrays_independent_and_broadcast
            [OF h, of empty_store imread_flat]
    by blast
  have refs: "va = 0" "ta = 1" "pa = 2"
    using al by (simp_all add: alloc_arrays_result empty_store_def)
  have "\<not> isl (load_cell imread_flat [''v.tiff''] [''t.tiff''] [''p.tiff''] empty_store)"
    by (simp add: load_cell_ok_iff loadable_def imread_flat_def flat_image_def
        broadcastable_def)
  then obtain s' where ok:
    "load_cell imread_flat [''v.tiff''] [''t.tiff''] [''p.tiff''] empty_store
       = Inr ((va, ta, pa), s')"
    using cell by (auto split: sum.splits)
  note a = after[rule_format, OF ok]
  have sh: "has_shape s' va (1, 512, 512)" "has_shape s' ta (1, 512, 512)"
    "has_shape s' pa (1, 512, 512)"
    using a by simp_all
  have ld: "loadable imread_flat (512, 512) ''v.tiff''"
    using a by simp
  have "(0::nat) < length [''v.tiff'']" "(3::nat) < 512" "(4::nat) < 512" by simp_all
  with a have "cell_at s' va 0 3 4 = read_value imread_flat (sorted_paths [''v.tiff''] ! 0) 3 4
              \<and> cell_at s' ta 0 3 4 = read_value imread_flat (sorted_paths [''t.tiff''] ! 0) 3 4
              \<and> cell_at s' pa 0 3 4 = read_value imread_flat (sorted_paths [''p.tiff''] ! 0) 3 4"
    by blast
  then have cells: "cell_at s' va 0 3 4 = Some 1" "cell_at s' ta 0 3 4 = Some 2"
    "cell_at s' pa 0 3 4 = Some 3"
    by (simp_all add: sorted_paths_def read_value_def imread_flat_def flat_image_def
        broadcast_value_def)
  have ne: "alloc_arrays 1 empty_store \<noteq> None"
    by (simp add: alloc_arrays_result)
  show ?thesis
    using h ne ok sh ld cells refs by simp
qed

section \<open>The segmentation cell: what it does\<close>

lemma eval_results_dir:
  "inference_options parsed_defaults folder task ''results_dir'' = Some (VStr ''./results/'')"
  by (simp add: inference_options_results_dir parsed_defaults_def)

text \<open>
  Claim C1 says the segmentation service is applied to the virtual-stain output directory
  and to the ground-truth directory. On the evaluation notebook the cell does not
  compile; and its first five statements, run one by one, issue two cellpose commands
  that both segment the results directory \<open>./results/\<close>, none the ground-truth directory
  bound to \<open>path_to_targets\<close>.
\<close>

theorem cellpose_runs_twice_on_results_dir:
  "run_cell (mask_cell uneven_masks) eval_notebook = Inl (SyntaxError 529)
   \<and> (case run_steps (take 5 (mask_cell uneven_masks)) eval_notebook of
         Inl e \<Rightarrow> False
       | Inr st \<Rightarrow>
           map dir_arg (nb_shell st) = [Some ''./results/'', Some ''./results/'']
         \<and> nb_globals st ''path_to_targets'' = Some (VStr (output_image_folder @ ''/test/'')))"
  by (simp add: run_cell_def mask_cell_def assign_path_to_virtual_stain_def
      assign_path_to_targets_def assign_cellpose_model_def cellpose_line_def expand_def
      bind_global_def load_name_def path_attr_def getattr_def eval_results_dir
      eval_notebook_def fresh_globals_def output_image_folder_def)

text \<open>
  Claim C4 says unequal file counts end the run at the counting assertion with its
  count-mismatch message. With two mask files under the results directory and one under
  the target directory, the segmentation cell never evaluates the assertion of line 530:
  compiled as a cell it fails with \<open>SyntaxError\<close> at line 529, and run statement by
  statement it fails at line 528 with \<open>NameError\<close> for \<open>path_to_predictions\<close>.
\<close>

theorem mask_count_assertion_not_reached:
  "run_cell (mask_cell uneven_masks) eval_notebook = Inl (SyntaxError 529)
   \<and> run_steps (mask_cell uneven_masks) eval_notebook = Inl (NameError ''path_to_predictions'')
   \<and> length (uneven_masks [] ''./results/'') = 2
   \<and> length (uneven_masks [] (output_image_folder @ ''/test/'')) = 1"
  by (simp add: run_cell_def mask_cell_def assign_path_to_virtual_stain_def
      assign_path_to_targets_def assign_cellpose_model_def cellpose_line_def expand_def
      assign_predicted_masks_def
      bind_global_def load_name_def path_attr_def getattr_def eval_results_dir
      eval_notebook_def fresh_globals_def output_image_folder_def uneven_masks_def)

end
